theory Spec2Isabelle
  imports Main "HOL-Library.Word"
begin

section \<open>Shared Kubernetes data model\<close>

text \<open>
  The Go types come from the CRD package and from the Kubernetes API packages; only the
  fields the three source files read or write are kept. A Go map that may be nil is an
  optional map (\<open>None\<close> is nil), a pointer is an option, a slice is a list (nil and
  empty are both \<open>[]\<close>), \<open>int32\<close> is a 32-bit word.
\<close>

type_synonym labelmap = "string \<rightharpoonup> string"

text \<open>\<open>metav1.ObjectMeta\<close>.\<close>

record ObjectMeta =
  Name :: string
  Namespace :: string
  Labels :: "labelmap option"
  Annotations :: "labelmap option"

text \<open>
  Every API object of the sources (the custom resources, Deployment, DaemonSet,
  PodTemplateSpec) is an \<open>ObjectMeta\<close> with a \<open>Spec\<close>; Go's promoted field
  \<open>r.Name\<close> is \<open>Name (ObjectMeta r)\<close>.
\<close>

record 'spec Object =
  ObjectMeta :: ObjectMeta
  Spec :: 'spec

text \<open>Reading a Go map at a key: the zero value on a nil map and on a missing key.\<close>

definition mapIndex :: "labelmap option \<Rightarrow> string \<Rightarrow> string" where
  "mapIndex m k = (case m of None \<Rightarrow> '''' | Some f \<Rightarrow> (case f k of None \<Rightarrow> '''' | Some v \<Rightarrow> v))"

text \<open>Ranging over a Go map: a nil map has no entries.\<close>

definition entries :: "labelmap option \<Rightarrow> labelmap" where
  "entries m = (case m of None \<Rightarrow> Map.empty | Some f \<Rightarrow> f)"

text \<open>
  The logger is the only effect of the sources: every function returns the entries it
  logs beside its result. \<open>Info msg kvs\<close> is \<open>Info(msg, k1, v1, ...)\<close>.
\<close>

datatype log_entry = Info string "(string \<times> string) list"

section \<open>The OpAMPBridge admission webhook (apis/v1alpha1/opampbridge\_webhook.go)\<close>

text \<open>\<open>v1.ServicePort\<close>, the two fields the validation reads.\<close>

record ServicePort =
  PortName :: string
  Port :: "32 word"

record OpAMPBridgeSpec =
  UpgradeStrategy :: string
  Replicas :: "32 word option"
  Endpoint :: string
  Protocol :: string
  Capabilities :: "string list"
  Ports :: "ServicePort list"

type_synonym OpAMPBridge = "OpAMPBridgeSpec Object"

text \<open>
  Modelled from the spec: the canonical automatic upgrade strategy. The constant
  \<open>UpgradeStrategyAutomatic\<close> is declared in a file of the package that is not among
  the sources; no proof below depends on its text.
\<close>

definition UpgradeStrategyAutomatic :: string where
  "UpgradeStrategyAutomatic = ''automatic''"

definition managedByKey :: string where
  "managedByKey = ''app.kubernetes.io/managed-by''"

text \<open>
  \<open>Default\<close> mutates the receiver; the model returns the log and the updated
  resource. The map assignment is reached with a non-nil map only (the statement before
  it replaces nil by the empty map).
\<close>

definition Default :: "OpAMPBridge \<Rightarrow> log_entry list \<times> OpAMPBridge" where
  "Default r =
     (let r1 = (if length (UpgradeStrategy (Spec r)) = 0
                then r\<lparr>Spec := (Spec r)\<lparr>UpgradeStrategy := UpgradeStrategyAutomatic\<rparr>\<rparr>
                else r);
          r2 = (if Labels (ObjectMeta r1) = None
                then r1\<lparr>ObjectMeta := (ObjectMeta r1)\<lparr>Labels := Some Map.empty\<rparr>\<rparr>
                else r1);
          r3 = (if mapIndex (Labels (ObjectMeta r2)) managedByKey = ''''
                then r2\<lparr>ObjectMeta := (ObjectMeta r2)
                        \<lparr>Labels := Some ((entries (Labels (ObjectMeta r2)))
                                           (managedByKey \<mapsto> ''opentelemetry-operator''))\<rparr>\<rparr>
                else r2);
          one = (1 :: 32 word);
          r4 = (if OpAMPBridgeSpec.Replicas (Spec r3) = None
                then r3\<lparr>Spec := (Spec r3)\<lparr>OpAMPBridgeSpec.Replicas := Some one\<rparr>\<rparr>
                else r3)
      in ([Info ''default'' [(''name'', Name (ObjectMeta r))]], r4))"

text \<open>
  \<open>fmt.Errorf(format, args...)\<close>, kept unformatted: the format string and its
  arguments.
\<close>

datatype fmt_arg = ArgString string | ArgStrings "string list" | ArgInt32 "32 word"

datatype error = Errorf string "fmt_arg list"

text \<open>
  \<open>strings.TrimSpace\<close> of Go's library cuts from both ends of the string every
  white-space character, as \<open>unicode.IsSpace\<close> defines it. A Go string is its bytes,
  in UTF-8; a byte sequence that is not the encoding of a white-space character is not
  cut. The white-space characters are the six of ASCII (tab, line feed, vertical tab,
  form feed, carriage return, space), encoded in one byte; U+0085 and U+00A0, encoded in
  two bytes (C2 85, C2 A0); and U+1680 (E1 9A 80), U+2000 to U+200A (E2 80 80 to
  E2 80 8A), U+2028, U+2029, U+202F (E2 80 A8, E2 80 A9, E2 80 AF), U+205F (E2 81 9F)
  and U+3000 (E3 80 80), encoded in three bytes.
\<close>

definition asciiSpace :: "char \<Rightarrow> bool" where
  "asciiSpace c \<longleftrightarrow> c \<in> set [CHR 0x09, CHR 0x0A, CHR 0x0B, CHR 0x0C, CHR 0x0D, CHR '' '']"

definition space2 :: "char \<Rightarrow> char \<Rightarrow> bool" where
  "space2 a b \<longleftrightarrow> a = CHR 0xC2 \<and> b \<in> set [CHR 0x85, CHR 0xA0]"

definition space3 :: "char \<Rightarrow> char \<Rightarrow> char \<Rightarrow> bool" where
  "space3 a b c \<longleftrightarrow>
     (a = CHR 0xE1 \<and> b = CHR 0x9A \<and> c = CHR 0x80)
     \<or> (a = CHR 0xE2 \<and> b = CHR 0x80 \<and>
          c \<in> set [CHR 0x80, CHR 0x81, CHR 0x82, CHR 0x83, CHR 0x84, CHR 0x85, CHR 0x86, CHR 0x87,
                    CHR 0x88, CHR 0x89, CHR 0x8A, CHR 0xA8, CHR 0xA9, CHR 0xAF])
     \<or> (a = CHR 0xE2 \<and> b = CHR 0x81 \<and> c = CHR 0x9F)
     \<or> (a = CHR 0xE3 \<and> b = CHR 0x80 \<and> c = CHR 0x80)"

text \<open>Cutting the leading white space: the bytes are read from the front.\<close>

fun TrimLeft :: "string \<Rightarrow> string" where
  "TrimLeft [] = []"
| "TrimLeft [a] = (if asciiSpace a then [] else [a])"
| "TrimLeft [a, b] =
     (if asciiSpace a then TrimLeft [b] else if space2 a b then [] else [a, b])"
| "TrimLeft (a # b # c # s) =
     (if asciiSpace a then TrimLeft (b # c # s)
      else if space2 a b then TrimLeft (c # s)
      else if space3 a b c then TrimLeft s
      else a # b # c # s)"

text \<open>
  Cutting the trailing white space: the bytes are read from the back, so the argument is
  the reversed string and \<open>c\<close> is the last byte of the string, \<open>b\<close> the one before
  it, \<open>a\<close> the one before that.
\<close>

fun TrimRightRev :: "string \<Rightarrow> string" where
  "TrimRightRev [] = []"
| "TrimRightRev [c] = (if asciiSpace c then [] else [c])"
| "TrimRightRev [c, b] =
     (if asciiSpace c then TrimRightRev [b] else if space2 b c then [] else [c, b])"
| "TrimRightRev (c # b # a # s) =
     (if asciiSpace c then TrimRightRev (b # a # s)
      else if space2 b c then TrimRightRev (a # s)
      else if space3 a b c then TrimRightRev s
      else c # b # a # s)"

definition TrimSpace :: "string \<Rightarrow> string" where
  "TrimSpace s = rev (TrimRightRev (rev (TrimLeft s)))"

text \<open>
  The loop over \<open>r.Spec.Ports\<close>. \<open>validation.IsValidPortName\<close> and
  \<open>validation.IsValidPortNum\<close> belong to the Kubernetes library and are parameters:
  each returns the list of complaints, empty when the value is valid.
\<close>

fun validatePorts ::
  "(string \<Rightarrow> string list) \<Rightarrow> (int \<Rightarrow> string list) \<Rightarrow> ServicePort list \<Rightarrow> error option" where
  "validatePorts IsValidPortName IsValidPortNum [] = None"
| "validatePorts IsValidPortName IsValidPortNum (p # ps) =
     (let nameErrs = IsValidPortName (PortName p);
          numErrs = IsValidPortNum (sint (Port p))
      in if length nameErrs > 0 \<or> length numErrs > 0
         then Some (Errorf ''the OpAMPBridge Spec Ports configuration is incorrect, port name '%s' errors: %s, num '%d' errors: %s''
                      [ArgString (PortName p), ArgStrings nameErrs, ArgInt32 (Port p), ArgStrings numErrs])
         else validatePorts IsValidPortName IsValidPortNum ps)"

definition validateCRDSpec ::
  "(string \<Rightarrow> string list) \<Rightarrow> (int \<Rightarrow> string list) \<Rightarrow> OpAMPBridge \<Rightarrow> error option" where
  "validateCRDSpec IsValidPortName IsValidPortNum r =
     (if length (TrimSpace (Endpoint (Spec r))) = 0
      then Some (Errorf ''the OpAMP server endpoint is not specified'' [])
      else if length (TrimSpace (Protocol (Spec r))) = 0
      then Some (Errorf ''the transport for OpAMP server protocol is not specified'' [])
      else if length (Capabilities (Spec r)) = 0
      then Some (Errorf ''the capabilities supported by OpAMP Bridge are not specified'' [])
      else validatePorts IsValidPortName IsValidPortNum (Ports (Spec r)))"

text \<open>
  \<open>ValidateCreate\<close> calls \<open>validateCRDSpec\<close> as a statement, so its result is
  dropped, and returns nil.
\<close>

definition ValidateCreate ::
  "(string \<Rightarrow> string list) \<Rightarrow> (int \<Rightarrow> string list) \<Rightarrow> OpAMPBridge \<Rightarrow> log_entry list \<times> error option" where
  "ValidateCreate IsValidPortName IsValidPortNum r =
     (let _ = validateCRDSpec IsValidPortName IsValidPortNum r
      in ([Info ''validate create'' [(''name'', Name (ObjectMeta r))]], None))"

text \<open>The old object of \<open>ValidateUpdate\<close> is a \<open>runtime.Object\<close>; it is never read.\<close>

definition ValidateUpdate :: "OpAMPBridge \<Rightarrow> 'old \<Rightarrow> log_entry list \<times> error option" where
  "ValidateUpdate r old = ([Info ''validate update'' [(''name'', Name (ObjectMeta r))]], None)"

definition ValidateDelete :: "OpAMPBridge \<Rightarrow> log_entry list \<times> error option" where
  "ValidateDelete r = ([Info ''validate delete'' [(''name'', Name (ObjectMeta r))]], None)"

section \<open>Workload manifests\<close>

subsection \<open>Kubernetes workload types\<close>

text \<open>
  API types the compilers only pass through are left opaque. Of \<open>corev1.Container\<close>
  the name and the image are kept.
\<close>

typedecl Volume
typedecl Toleration
typedecl Affinity
typedecl PodSecurityContext
typedecl TopologySpreadConstraint
typedecl ConfigMap

record Container =
  ContainerName :: string
  Image :: string

text \<open>
  \<open>corev1.DNSPolicy\<close> is a string type; a pod spec that does not set the field holds
  the empty string.
\<close>

definition DNSClusterFirst :: string where
  "DNSClusterFirst = ''ClusterFirst''"

definition DNSClusterFirstWithHostNet :: string where
  "DNSClusterFirstWithHostNet = ''ClusterFirstWithHostNet''"

text \<open>The custom resource the target allocator and the collector are compiled from.\<close>

record OpenTelemetryTargetAllocator =
  Replicas :: "32 word option"
  NodeSelector :: "labelmap option"
  TopologySpreadConstraints :: "TopologySpreadConstraint list"

record OpenTelemetryCollectorSpec =
  TargetAllocator :: OpenTelemetryTargetAllocator
  InitContainers :: "Container list"
  AdditionalContainers :: "Container list"
  Tolerations :: "Toleration list"
  NodeSelector :: "labelmap option"
  HostNetwork :: bool
  PodSecurityContext :: "PodSecurityContext option"
  PriorityClassName :: string
  Affinity :: "Affinity option"

type_synonym OpenTelemetryCollector = "OpenTelemetryCollectorSpec Object"

text \<open>
  \<open>corev1.PodSpec\<close>: a field a struct literal leaves out holds Go's zero value.
\<close>

record PodSpec =
  ServiceAccountName :: string
  InitContainers :: "Container list"
  Containers :: "Container list"
  Volumes :: "Volume list"
  Tolerations :: "Toleration list"
  NodeSelector :: "labelmap option"
  HostNetwork :: bool
  DNSPolicy :: string
  SecurityContext :: "PodSecurityContext option"
  PriorityClassName :: string
  Affinity :: "Affinity option"
  TopologySpreadConstraints :: "TopologySpreadConstraint list"

type_synonym PodTemplateSpec = "PodSpec Object"

record LabelSelector =
  MatchLabels :: "labelmap option"

record DeploymentSpec =
  Replicas :: "32 word option"
  Selector :: "LabelSelector option"
  Template :: PodTemplateSpec

record DaemonSetSpec =
  Selector :: "LabelSelector option"
  Template :: PodTemplateSpec

type_synonym Deployment = "DeploymentSpec Object"
type_synonym DaemonSet = "DaemonSetSpec Object"

text \<open>The match labels of a selector pointer: none behind nil.\<close>

definition matchLabels :: "LabelSelector option \<Rightarrow> labelmap" where
  "matchLabels sel = (case sel of None \<Rightarrow> Map.empty | Some s \<Rightarrow> entries (MatchLabels s))"

text \<open>
  \<open>config.Config\<close> with the one accessor the compilers call, and
  \<open>manifests.Params\<close>; its logger is the log the functions return.
\<close>

record Config =
  LabelsFilter :: "string list"

record Params =
  OtelCol :: OpenTelemetryCollector
  Config :: Config

subsection \<open>Label and annotation synthesis\<close>

definition componentKey :: string where
  "componentKey = ''app.kubernetes.io/component''"

definition instanceKey :: string where
  "instanceKey = ''app.kubernetes.io/instance''"

definition partOfKey :: string where
  "partOfKey = ''app.kubernetes.io/part-of''"

definition versionKey :: string where
  "versionKey = ''app.kubernetes.io/version''"

definition nameKey :: string where
  "nameKey = ''app.kubernetes.io/name''"

text \<open>
  Modelled from the spec: \<open>SelectorLabels(resource)\<close>, whose source file is not among
  the sources. It returns only component, instance (namespace, a dot, name), managed-by
  and part-of. The component value is fixed per compiler and is a parameter; the other
  fixed values are those of the spec's scenario.
\<close>

definition SelectorLabels :: "string \<Rightarrow> 'spec Object \<Rightarrow> labelmap" where
  "SelectorLabels component r =
     [componentKey \<mapsto> component,
      instanceKey \<mapsto> Namespace (ObjectMeta r) @ ''.'' @ Name (ObjectMeta r),
      managedByKey \<mapsto> ''opentelemetry-operator'',
      partOfKey \<mapsto> ''opentelemetry'']"

text \<open>
  Modelled from the spec: the version label, a fixed value unless the resource pins one.
  How a resource pins a version is not in the sources: \<open>pinned\<close> is the pinned
  version, if any.
\<close>

definition versionLabel :: "string option \<Rightarrow> string" where
  "versionLabel pinned = (case pinned of None \<Rightarrow> ''latest'' | Some v \<Rightarrow> v)"

text \<open>
  Modelled from the spec: \<open>Labels(resource, canonicalName, filterPatterns)\<close>, whose
  source file is not among the sources. The six identity labels are computed
  unconditionally; the resource's own labels are merged in, except the keys that match a
  filter pattern. The glob match \<open>isFiltered key patterns\<close> is a parameter.
\<close>

definition Labels_of ::
  "(string \<Rightarrow> string list \<Rightarrow> bool) \<Rightarrow> string \<Rightarrow> string option \<Rightarrow> 'spec Object \<Rightarrow> string \<Rightarrow> string list
     \<Rightarrow> labelmap" where
  "Labels_of isFiltered component pinned r name filterPatterns =
     (\<lambda>k. if isFiltered k filterPatterns then None else entries (Labels (ObjectMeta r)) k)
     ++ [componentKey \<mapsto> component,
         instanceKey \<mapsto> Namespace (ObjectMeta r) @ ''.'' @ Name (ObjectMeta r),
         managedByKey \<mapsto> ''opentelemetry-operator'',
         partOfKey \<mapsto> ''opentelemetry'',
         versionKey \<mapsto> versionLabel pinned,
         nameKey \<mapsto> name]"

text \<open>
  Modelled from the spec: the fixed key of the checksum annotation. The spec fixes the
  key without giving its text.
\<close>

definition configMapHashAnnotationKey :: string where
  "configMapHashAnnotationKey = ''opentelemetry-targetallocator-config/hash''"

text \<open>
  Modelled from the spec: \<open>Annotations(resource, dependentObject?)\<close>, whose source
  file is not among the sources. It starts from the resource-level annotations, passed
  through; when a dependent object is supplied and a hash can be computed
  (\<open>getConfigMapSHA\<close>, a parameter), it adds the hash under the fixed key; without the
  object it proceeds without adding the key.
\<close>

definition Annotations_of ::
  "(ConfigMap \<Rightarrow> string option) \<Rightarrow> 'spec Object \<Rightarrow> ConfigMap option \<Rightarrow> labelmap" where
  "Annotations_of getConfigMapSHA r configMap =
     (case configMap of
        None \<Rightarrow> entries (Annotations (ObjectMeta r))
      | Some cm \<Rightarrow>
          (case getConfigMapSHA cm of
             None \<Rightarrow> entries (Annotations (ObjectMeta r))
           | Some h \<Rightarrow> (entries (Annotations (ObjectMeta r)))(configMapHashAnnotationKey \<mapsto> h)))"

text \<open>
  Modelled from the spec: \<open>getDNSPolicy\<close>, whose source file is not among the
  sources: \<open>ClusterFirst\<close> if HostNetwork is false, else
  \<open>ClusterFirstWithHostNet\<close>.
\<close>

definition getDNSPolicy :: "OpenTelemetryCollector \<Rightarrow> string" where
  "getDNSPolicy otelcol =
     (if OpenTelemetryCollectorSpec.HostNetwork (Spec otelcol)
      then DNSClusterFirstWithHostNet else DNSClusterFirst)"

subsection \<open>The target allocator Deployment (internal/manifests/targetallocator/deployment.go)\<close>

text \<open>
  The functions of the package that the sources call but do not contain are the fields
  of a record, together with what the spec-modelled label and annotation synthesis leave
  open. A helper that receives the logger returns what it logs. \<open>ConfigMap\<close> returns
  Go's pair of a pointer and an error. The package's \<open>Labels(otelcol, name)\<close> takes no
  filter patterns: it is the spec's label synthesis with none.
\<close>

record targetallocator =
  naming_TargetAllocator :: "string \<Rightarrow> string"
  component :: string
  pinnedVersion :: "OpenTelemetryCollector \<Rightarrow> string option"
  isFilteredLabel :: "string \<Rightarrow> string list \<Rightarrow> bool"
  ConfigMap :: "Params \<Rightarrow> log_entry list \<times> ConfigMap option \<times> error option"
  getConfigMapSHA :: "ConfigMap \<Rightarrow> string option"
  ServiceAccountName :: "OpenTelemetryCollector \<Rightarrow> string"
  Container :: "Config \<Rightarrow> OpenTelemetryCollector \<Rightarrow> log_entry list \<times> Container"
  Volumes :: "Config \<Rightarrow> OpenTelemetryCollector \<Rightarrow> Volume list"

definition Deployment :: "targetallocator \<Rightarrow> Params \<Rightarrow> log_entry list \<times> Deployment" where
  "Deployment pkg params =
     (let otelcol = OtelCol params;
          name = naming_TargetAllocator pkg (Name (ObjectMeta otelcol));
          labels = Labels_of (targetallocator.isFilteredLabel pkg) (targetallocator.component pkg)
                     (targetallocator.pinnedVersion pkg otelcol) otelcol name [];
          (log1, configMap0, err) = ConfigMap pkg params;
          (log2, configMap) =
             (if err \<noteq> None
              then ([Info ''failed to construct target allocator config map for annotations'' []], None)
              else ([], configMap0));
          annotations = Annotations_of (getConfigMapSHA pkg) otelcol configMap;
          (log3, container) = targetallocator.Container pkg (Config params) otelcol
      in (log1 @ log2 @ log3,
          \<lparr>ObjectMeta = \<lparr>Name = name, Namespace = Namespace (ObjectMeta otelcol),
                          Labels = Some labels, ObjectMeta.Annotations = None\<rparr>,
           Spec = \<lparr>DeploymentSpec.Replicas =
                     OpenTelemetryTargetAllocator.Replicas (TargetAllocator (Spec otelcol)),
                   DeploymentSpec.Selector = Some \<lparr>MatchLabels = Some labels\<rparr>,
                   DeploymentSpec.Template =
                     \<lparr>ObjectMeta = \<lparr>Name = '''', Namespace = '''',
                                     Labels = Some labels, ObjectMeta.Annotations = Some annotations\<rparr>,
                      Spec = \<lparr>PodSpec.ServiceAccountName = targetallocator.ServiceAccountName pkg otelcol,
                              PodSpec.InitContainers = [],
                              PodSpec.Containers = [container],
                              PodSpec.Volumes = targetallocator.Volumes pkg (Config params) otelcol,
                              PodSpec.Tolerations = [],
                              PodSpec.NodeSelector =
                                OpenTelemetryTargetAllocator.NodeSelector (TargetAllocator (Spec otelcol)),
                              PodSpec.HostNetwork = False,
                              PodSpec.DNSPolicy = '''',
                              PodSpec.SecurityContext = None,
                              PodSpec.PriorityClassName = '''',
                              PodSpec.Affinity = None,
                              PodSpec.TopologySpreadConstraints =
                                OpenTelemetryTargetAllocator.TopologySpreadConstraints
                                  (TargetAllocator (Spec otelcol))\<rparr>\<rparr>\<rparr>\<rparr>))"

subsection \<open>The collector DaemonSet (package collector)\<close>

record collector =
  naming_Collector :: "string \<Rightarrow> string"
  component :: string
  pinnedVersion :: "OpenTelemetryCollector \<Rightarrow> string option"
  isFilteredLabel :: "string \<Rightarrow> string list \<Rightarrow> bool"
  Annotations :: "OpenTelemetryCollector \<Rightarrow> labelmap option"
  PodAnnotations :: "OpenTelemetryCollector \<Rightarrow> labelmap option"
  ServiceAccountName :: "OpenTelemetryCollector \<Rightarrow> string"
  Container :: "Config \<Rightarrow> OpenTelemetryCollector \<Rightarrow> bool \<Rightarrow> log_entry list \<times> Container"
  Volumes :: "Config \<Rightarrow> OpenTelemetryCollector \<Rightarrow> Volume list"

text \<open>
  Go's \<open>append(s, x)\<close> yields the elements of \<open>s\<close> followed by \<open>x\<close>.
\<close>

definition DaemonSet :: "collector \<Rightarrow> Params \<Rightarrow> log_entry list \<times> DaemonSet" where
  "DaemonSet pkg params =
     (let otelcol = OtelCol params;
          name = naming_Collector pkg (Name (ObjectMeta otelcol));
          labels = Labels_of (collector.isFilteredLabel pkg) (collector.component pkg)
                     (collector.pinnedVersion pkg otelcol) otelcol name (LabelsFilter (Config params));
          annotations = collector.Annotations pkg otelcol;
          podAnnotations = PodAnnotations pkg otelcol;
          (log, container) = collector.Container pkg (Config params) otelcol True
      in (log,
          \<lparr>ObjectMeta = \<lparr>Name = naming_Collector pkg (Name (ObjectMeta otelcol)),
                          Namespace = Namespace (ObjectMeta otelcol),
                          Labels = Some labels, ObjectMeta.Annotations = annotations\<rparr>,
           Spec = \<lparr>DaemonSetSpec.Selector =
                     Some \<lparr>MatchLabels = Some (SelectorLabels (collector.component pkg) otelcol)\<rparr>,
                   DaemonSetSpec.Template =
                     \<lparr>ObjectMeta = \<lparr>Name = '''', Namespace = '''',
                                     Labels = Some labels, ObjectMeta.Annotations = podAnnotations\<rparr>,
                      Spec = \<lparr>PodSpec.ServiceAccountName = collector.ServiceAccountName pkg otelcol,
                              PodSpec.InitContainers =
                                OpenTelemetryCollectorSpec.InitContainers (Spec otelcol),
                              PodSpec.Containers = AdditionalContainers (Spec otelcol) @ [container],
                              PodSpec.Volumes = collector.Volumes pkg (Config params) otelcol,
                              PodSpec.Tolerations = OpenTelemetryCollectorSpec.Tolerations (Spec otelcol),
                              PodSpec.NodeSelector = OpenTelemetryCollectorSpec.NodeSelector (Spec otelcol),
                              PodSpec.HostNetwork = OpenTelemetryCollectorSpec.HostNetwork (Spec otelcol),
                              PodSpec.DNSPolicy = getDNSPolicy otelcol,
                              PodSpec.SecurityContext = PodSecurityContext (Spec otelcol),
                              PodSpec.PriorityClassName =
                                OpenTelemetryCollectorSpec.PriorityClassName (Spec otelcol),
                              PodSpec.Affinity = OpenTelemetryCollectorSpec.Affinity (Spec otelcol),
                              PodSpec.TopologySpreadConstraints = []\<rparr>\<rparr>\<rparr>\<rparr>))"

section \<open>Example inputs\<close>

text \<open>
  A bridge with every defaulted field unset and an empty endpoint, and one with every
  defaulted field set, with endpoint and protocol set and no capabilities.
\<close>

definition bridge_unset :: OpAMPBridge where
  "bridge_unset =
     \<lparr>ObjectMeta = \<lparr>Name = ''my-instance'', Namespace = ''my-namespace'', Labels = None,
                     ObjectMeta.Annotations = None\<rparr>,
      Spec = \<lparr>UpgradeStrategy = '''', OpAMPBridgeSpec.Replicas = None, Endpoint = '''',
              Protocol = ''wss'', Capabilities = [''AcceptsRemoteConfig''], Ports = []\<rparr>\<rparr>"

definition bridge_set :: OpAMPBridge where
  "bridge_set =
     \<lparr>ObjectMeta = \<lparr>Name = ''my-instance'', Namespace = ''my-namespace'',
                     Labels = Some [managedByKey \<mapsto> ''someone-else''],
                     ObjectMeta.Annotations = None\<rparr>,
      Spec = \<lparr>UpgradeStrategy = ''none'', OpAMPBridgeSpec.Replicas = Some 3,
              Endpoint = ''ws://opamp:4320/v1/opamp'', Protocol = ''wss'',
              Capabilities = [], Ports = []\<rparr>\<rparr>"

text \<open>A bridge whose managed-by label is declared with the empty string.\<close>

definition bridge_empty_label :: OpAMPBridge where
  "bridge_empty_label =
     \<lparr>ObjectMeta = \<lparr>Name = ''my-instance'', Namespace = ''my-namespace'',
                     Labels = Some [managedByKey \<mapsto> ''''], ObjectMeta.Annotations = None\<rparr>,
      Spec = \<lparr>UpgradeStrategy = ''none'', OpAMPBridgeSpec.Replicas = Some 3,
              Endpoint = ''ws://opamp:4320/v1/opamp'', Protocol = ''wss'',
              Capabilities = [''AcceptsRemoteConfig''], Ports = []\<rparr>\<rparr>"

text \<open>
  A collector resource with one additional container, and with an annotation of its own
  under the checksum key; the same resource on the host network.
\<close>

definition sidecar :: Container where
  "sidecar = \<lparr>ContainerName = ''sidecar'', Image = ''busybox''\<rparr>"

definition otelcol_example :: OpenTelemetryCollector where
  "otelcol_example =
     \<lparr>ObjectMeta = \<lparr>Name = ''my-instance'', Namespace = ''my-namespace'', Labels = None,
                     ObjectMeta.Annotations = Some [configMapHashAnnotationKey \<mapsto> ''user-value'']\<rparr>,
      Spec = \<lparr>TargetAllocator =
                \<lparr>OpenTelemetryTargetAllocator.Replicas = None,
                 OpenTelemetryTargetAllocator.NodeSelector = None,
                 OpenTelemetryTargetAllocator.TopologySpreadConstraints = []\<rparr>,
              OpenTelemetryCollectorSpec.InitContainers = [],
              AdditionalContainers = [sidecar],
              OpenTelemetryCollectorSpec.Tolerations = [],
              OpenTelemetryCollectorSpec.NodeSelector = None,
              OpenTelemetryCollectorSpec.HostNetwork = False,
              PodSecurityContext = None,
              OpenTelemetryCollectorSpec.PriorityClassName = '''',
              OpenTelemetryCollectorSpec.Affinity = None\<rparr>\<rparr>"

definition params_example :: Params where
  "params_example = \<lparr>OtelCol = otelcol_example, Config = \<lparr>LabelsFilter = []\<rparr>\<rparr>"

definition params_hostnetwork :: Params where
  "params_hostnetwork =
     \<lparr>OtelCol = otelcol_example\<lparr>Spec := (Spec otelcol_example)
                  \<lparr>OpenTelemetryCollectorSpec.HostNetwork := True\<rparr>\<rparr>,
      Config = \<lparr>LabelsFilter = []\<rparr>\<rparr>"

text \<open>
  Stand-ins for the helpers of the two packages; the \<open>ConfigMap\<close> of the first one
  fails.
\<close>

definition targetallocator_failing :: targetallocator where
  "targetallocator_failing =
     \<lparr>naming_TargetAllocator = (\<lambda>n. n @ ''-targetallocator''),
      targetallocator.component = ''opentelemetry-targetallocator'',
      targetallocator.pinnedVersion = (\<lambda>otelcol. None),
      targetallocator.isFilteredLabel = (\<lambda>k patterns. False),
      ConfigMap = (\<lambda>params. ([], None, Some (Errorf ''no config'' []))),
      getConfigMapSHA = (\<lambda>cm. None),
      targetallocator.ServiceAccountName = (\<lambda>otelcol. Name (ObjectMeta otelcol) @ ''-targetallocator''),
      targetallocator.Container =
        (\<lambda>cfg otelcol. ([], \<lparr>ContainerName = ''ta-container'', Image = ''targetallocator''\<rparr>)),
      targetallocator.Volumes = (\<lambda>cfg otelcol. [])\<rparr>"

definition collector_example :: collector where
  "collector_example =
     \<lparr>naming_Collector = (\<lambda>n. n @ ''-collector''),
      collector.component = ''opentelemetry-collector'',
      collector.pinnedVersion = (\<lambda>otelcol. None),
      collector.isFilteredLabel = (\<lambda>k patterns. False),
      collector.Annotations = (\<lambda>otelcol. ObjectMeta.Annotations (ObjectMeta otelcol)),
      PodAnnotations = (\<lambda>otelcol. None),
      collector.ServiceAccountName = (\<lambda>otelcol. Name (ObjectMeta otelcol) @ ''-collector''),
      collector.Container =
        (\<lambda>cfg otelcol isDaemonSet. ([], \<lparr>ContainerName = ''otc-container'', Image = ''collector''\<rparr>)),
      collector.Volumes = (\<lambda>cfg otelcol. [])\<rparr>"

section \<open>The webhook: defaulting\<close>

text \<open>What \<open>Default\<close> returns, as one record update of its argument.\<close>

lemma Default_snd:
  "snd (Default r) =
     r\<lparr>ObjectMeta := (ObjectMeta r)\<lparr>Labels :=
            (if mapIndex (Labels (ObjectMeta r)) managedByKey = []
             then Some ((entries (Labels (ObjectMeta r)))(managedByKey \<mapsto> ''opentelemetry-operator''))
             else Labels (ObjectMeta r))\<rparr>,
       Spec := (Spec r)\<lparr>UpgradeStrategy :=
            (if UpgradeStrategy (Spec r) = [] then UpgradeStrategyAutomatic else UpgradeStrategy (Spec r)),
          OpAMPBridgeSpec.Replicas :=
            (if OpAMPBridgeSpec.Replicas (Spec r) = None then Some 1
             else OpAMPBridgeSpec.Replicas (Spec r))\<rparr>\<rparr>"
proof -
  have nil: "mapIndex None managedByKey = []" "mapIndex (Some Map.empty) managedByKey = []"
    "entries None = Map.empty" "entries (Some Map.empty) = Map.empty"
    by (simp_all add: mapIndex_def entries_def)
  show ?thesis
  proof (cases "Labels (ObjectMeta r)")
    case None
    then show ?thesis by (simp add: Default_def Let_def nil)
  next
    case (Some m)
    then show ?thesis by (simp add: Default_def Let_def)
  qed
qed

lemma Default_log: "fst (Default r) = [Info ''default'' [(''name'', Name (ObjectMeta r))]]"
  by (simp add: Default_def Let_def)

lemma mapIndex_upd: "mapIndex (Some (m(k \<mapsto> v))) k = v"
  by (simp add: mapIndex_def)

lemma mapIndex_nonempty_iff:
  "mapIndex m k \<noteq> [] \<longleftrightarrow> (\<exists>v. entries m k = Some v \<and> v \<noteq> [])"
  by (auto simp add: mapIndex_def entries_def split: option.splits)

lemma Default_UpgradeStrategy:
  "UpgradeStrategy (Spec (snd (Default r))) =
     (if UpgradeStrategy (Spec r) = [] then UpgradeStrategyAutomatic else UpgradeStrategy (Spec r))"
  by (simp add: Default_snd)

lemma Default_Labels:
  "Labels (ObjectMeta (snd (Default r))) =
     (if mapIndex (Labels (ObjectMeta r)) managedByKey = []
      then Some ((entries (Labels (ObjectMeta r)))(managedByKey \<mapsto> ''opentelemetry-operator''))
      else Labels (ObjectMeta r))"
  by (simp add: Default_snd)

lemma Default_Replicas:
  "OpAMPBridgeSpec.Replicas (Spec (snd (Default r))) =
     (if OpAMPBridgeSpec.Replicas (Spec r) = None then Some 1 else OpAMPBridgeSpec.Replicas (Spec r))"
  by (simp add: Default_snd)

lemma Default_meta_rest:
  "Name (ObjectMeta (snd (Default r))) = Name (ObjectMeta r)
   \<and> Namespace (ObjectMeta (snd (Default r))) = Namespace (ObjectMeta r)
   \<and> ObjectMeta.Annotations (ObjectMeta (snd (Default r))) = ObjectMeta.Annotations (ObjectMeta r)"
  by (simp add: Default_snd)

lemma Default_spec_rest:
  "Endpoint (Spec (snd (Default r))) = Endpoint (Spec r)
   \<and> Protocol (Spec (snd (Default r))) = Protocol (Spec r)
   \<and> Capabilities (Spec (snd (Default r))) = Capabilities (Spec r)
   \<and> Ports (Spec (snd (Default r))) = Ports (Spec r)"
  by (simp add: Default_snd)

lemma Default_managed_by_nonempty:
  "mapIndex (Labels (ObjectMeta (snd (Default r)))) managedByKey \<noteq> []"
  by (simp add: Default_Labels mapIndex_upd)

text \<open>
  C5. \<open>Default\<close> is idempotent: applying it to its own result changes nothing, so
  \<open>Default(Default(R)) = Default(R)\<close> for every resource \<open>R\<close>.
\<close>

theorem Default_idempotent: "snd (Default (snd (Default r))) = snd (Default r)"
proof -
  define r' where "r' = snd (Default r)"
  have labels: "mapIndex (Labels (ObjectMeta r')) managedByKey \<noteq> []"
    unfolding r'_def by (rule Default_managed_by_nonempty)
  have strategy: "(if UpgradeStrategy (Spec r') = [] then UpgradeStrategyAutomatic
                   else UpgradeStrategy (Spec r')) = UpgradeStrategy (Spec r')"
    unfolding r'_def by (simp add: Default_UpgradeStrategy)
  have replicas: "OpAMPBridgeSpec.Replicas (Spec r') \<noteq> None"
    unfolding r'_def by (simp add: Default_Replicas)
  have "snd (Default r') = r'"
    by (simp add: Default_snd [of r'] labels strategy replicas)
  then show ?thesis by (simp add: r'_def)
qed

text \<open>
  C6. After \<open>Default\<close>: an unset upgrade strategy is the automatic one and a set one is
  unchanged; the managed-by label is present, with the value opentelemetry-operator when
  it was absent, and the labels are unchanged when it had a non-empty value; no other
  label changes; an unset replica count is 1 and a set one is unchanged; the name, the
  namespace, the annotations, the endpoint, the protocol, the capabilities and the ports
  are unchanged.
\<close>

theorem Default_fills_unset_keeps_set:
  "(UpgradeStrategy (Spec r) = '''' \<longrightarrow>
        UpgradeStrategy (Spec (snd (Default r))) = UpgradeStrategyAutomatic)
   \<and> (UpgradeStrategy (Spec r) \<noteq> '''' \<longrightarrow>
        UpgradeStrategy (Spec (snd (Default r))) = UpgradeStrategy (Spec r))
   \<and> (\<exists>v. entries (Labels (ObjectMeta (snd (Default r)))) managedByKey = Some v)
   \<and> (entries (Labels (ObjectMeta r)) managedByKey = None \<longrightarrow>
        entries (Labels (ObjectMeta (snd (Default r)))) managedByKey = Some ''opentelemetry-operator'')
   \<and> (mapIndex (Labels (ObjectMeta r)) managedByKey \<noteq> '''' \<longrightarrow>
        Labels (ObjectMeta (snd (Default r))) = Labels (ObjectMeta r))
   \<and> (\<forall>k. k \<noteq> managedByKey \<longrightarrow>
        entries (Labels (ObjectMeta (snd (Default r)))) k = entries (Labels (ObjectMeta r)) k)
   \<and> (OpAMPBridgeSpec.Replicas (Spec r) = None \<longrightarrow>
        OpAMPBridgeSpec.Replicas (Spec (snd (Default r))) = Some 1)
   \<and> (OpAMPBridgeSpec.Replicas (Spec r) \<noteq> None \<longrightarrow>
        OpAMPBridgeSpec.Replicas (Spec (snd (Default r))) = OpAMPBridgeSpec.Replicas (Spec r))
   \<and> Name (ObjectMeta (snd (Default r))) = Name (ObjectMeta r)
   \<and> Namespace (ObjectMeta (snd (Default r))) = Namespace (ObjectMeta r)
   \<and> ObjectMeta.Annotations (ObjectMeta (snd (Default r))) = ObjectMeta.Annotations (ObjectMeta r)
   \<and> Endpoint (Spec (snd (Default r))) = Endpoint (Spec r)
   \<and> Protocol (Spec (snd (Default r))) = Protocol (Spec r)
   \<and> Capabilities (Spec (snd (Default r))) = Capabilities (Spec r)
   \<and> Ports (Spec (snd (Default r))) = Ports (Spec r)"
proof -
  have present: "\<exists>v. entries (Labels (ObjectMeta (snd (Default r)))) managedByKey = Some v"
    using Default_managed_by_nonempty [of r] by (auto simp add: mapIndex_nonempty_iff)
  have absent: "entries (Labels (ObjectMeta r)) managedByKey = None \<longrightarrow>
      entries (Labels (ObjectMeta (snd (Default r)))) managedByKey = Some ''opentelemetry-operator''"
    by (simp add: Default_Labels entries_def mapIndex_def split: option.splits)
  have kept: "mapIndex (Labels (ObjectMeta r)) managedByKey \<noteq> '''' \<longrightarrow>
        Labels (ObjectMeta (snd (Default r))) = Labels (ObjectMeta r)"
    by (simp add: Default_Labels)
  have others: "\<forall>k. k \<noteq> managedByKey \<longrightarrow>
      entries (Labels (ObjectMeta (snd (Default r)))) k = entries (Labels (ObjectMeta r)) k"
    by (simp add: Default_Labels entries_def)
  have strategy: "(UpgradeStrategy (Spec r) = '''' \<longrightarrow>
        UpgradeStrategy (Spec (snd (Default r))) = UpgradeStrategyAutomatic)
      \<and> (UpgradeStrategy (Spec r) \<noteq> '''' \<longrightarrow>
        UpgradeStrategy (Spec (snd (Default r))) = UpgradeStrategy (Spec r))"
    by (simp add: Default_UpgradeStrategy)
  have replicas: "(OpAMPBridgeSpec.Replicas (Spec r) = None \<longrightarrow>
        OpAMPBridgeSpec.Replicas (Spec (snd (Default r))) = Some 1)
      \<and> (OpAMPBridgeSpec.Replicas (Spec r) \<noteq> None \<longrightarrow>
        OpAMPBridgeSpec.Replicas (Spec (snd (Default r))) = OpAMPBridgeSpec.Replicas (Spec r))"
    by (simp add: Default_Replicas)
  from strategy present absent kept others replicas Default_meta_rest [of r] Default_spec_rest [of r]
  show ?thesis by blast
qed

theorem Default_fills_unset_keeps_set_witness:
  "UpgradeStrategy (Spec (snd (Default bridge_unset))) = UpgradeStrategyAutomatic
   \<and> entries (Labels (ObjectMeta (snd (Default bridge_unset)))) managedByKey
       = Some ''opentelemetry-operator''
   \<and> OpAMPBridgeSpec.Replicas (Spec (snd (Default bridge_unset))) = Some 1
   \<and> UpgradeStrategy (Spec (snd (Default bridge_set))) = ''none''
   \<and> Labels (ObjectMeta (snd (Default bridge_set))) = Some [managedByKey \<mapsto> ''someone-else'']
   \<and> entries (Labels (ObjectMeta (snd (Default bridge_set)))) ''team''
       = entries (Labels (ObjectMeta bridge_set)) ''team''
   \<and> OpAMPBridgeSpec.Replicas (Spec (snd (Default bridge_set))) = Some 3"
proof -
  have u1: "UpgradeStrategy (Spec bridge_unset) = ''''"
    and u2: "entries (Labels (ObjectMeta bridge_unset)) managedByKey = None"
    and u3: "OpAMPBridgeSpec.Replicas (Spec bridge_unset) = None"
    by (simp_all add: bridge_unset_def entries_def)
  have s1: "UpgradeStrategy (Spec bridge_set) \<noteq> ''''"
    and s1': "UpgradeStrategy (Spec bridge_set) = ''none''"
    and s2: "mapIndex (Labels (ObjectMeta bridge_set)) managedByKey \<noteq> ''''"
    and s2': "Labels (ObjectMeta bridge_set) = Some [managedByKey \<mapsto> ''someone-else'']"
    and s3: "OpAMPBridgeSpec.Replicas (Spec bridge_set) \<noteq> None"
    and s3': "OpAMPBridgeSpec.Replicas (Spec bridge_set) = Some 3"
    and s4: "''team'' \<noteq> managedByKey"
    by (simp_all add: bridge_set_def mapIndex_def managedByKey_def)
  from Default_fills_unset_keeps_set [of bridge_unset] u1 u2 u3
  have unset: "UpgradeStrategy (Spec (snd (Default bridge_unset))) = UpgradeStrategyAutomatic
     \<and> entries (Labels (ObjectMeta (snd (Default bridge_unset)))) managedByKey
         = Some ''opentelemetry-operator''
     \<and> OpAMPBridgeSpec.Replicas (Spec (snd (Default bridge_unset))) = Some 1"
    by blast
  from Default_fills_unset_keeps_set [of bridge_set] s1 s2 s3 s4
  have "UpgradeStrategy (Spec (snd (Default bridge_set))) = UpgradeStrategy (Spec bridge_set)
     \<and> Labels (ObjectMeta (snd (Default bridge_set))) = Labels (ObjectMeta bridge_set)
     \<and> entries (Labels (ObjectMeta (snd (Default bridge_set)))) ''team''
         = entries (Labels (ObjectMeta bridge_set)) ''team''
     \<and> OpAMPBridgeSpec.Replicas (Spec (snd (Default bridge_set)))
         = OpAMPBridgeSpec.Replicas (Spec bridge_set)"
    by blast
  with unset s1' s2' s3' show ?thesis by simp
qed

text \<open>
  C10. A managed-by label declared with the empty string is overwritten with
  opentelemetry-operator, exactly as an absent one: the result of \<open>Default\<close> is the
  same as for the resource without that label, and after \<open>Default\<close> the label is
  present and is never the empty string.
\<close>

theorem Default_overwrites_empty_managed_by:
  "(Labels (ObjectMeta r) = Some m \<and> m managedByKey = Some '''' \<longrightarrow>
      Labels (ObjectMeta (snd (Default r))) = Some (m(managedByKey \<mapsto> ''opentelemetry-operator''))
    \<and> snd (Default r) =
        snd (Default (r\<lparr>ObjectMeta := (ObjectMeta r)\<lparr>Labels := Some (m(managedByKey := None))\<rparr>\<rparr>)))
   \<and> (\<exists>v. entries (Labels (ObjectMeta (snd (Default r)))) managedByKey = Some v \<and> v \<noteq> '''')"
proof -
  have nonempty: "\<exists>v. entries (Labels (ObjectMeta (snd (Default r)))) managedByKey = Some v \<and> v \<noteq> ''''"
    using Default_managed_by_nonempty [of r] by (simp add: mapIndex_nonempty_iff)
  have overwritten: "Labels (ObjectMeta (snd (Default r))) =
          Some (m(managedByKey \<mapsto> ''opentelemetry-operator''))
      \<and> snd (Default r) =
          snd (Default (r\<lparr>ObjectMeta := (ObjectMeta r)\<lparr>Labels := Some (m(managedByKey := None))\<rparr>\<rparr>))"
    if labels: "Labels (ObjectMeta r) = Some m" and empty: "m managedByKey = Some ''''"
  proof -
    have here: "mapIndex (Some m) managedByKey = []"
      by (simp add: empty mapIndex_def)
    have there: "mapIndex (Some (m(managedByKey := None))) managedByKey = []"
      by (simp add: mapIndex_def)
    show ?thesis
      by (simp add: Default_snd here there labels entries_def)
  qed
  from nonempty overwritten show ?thesis by blast
qed

theorem Default_overwrites_empty_managed_by_witness:
  "Labels (ObjectMeta (snd (Default bridge_empty_label)))
     = Some [managedByKey \<mapsto> ''opentelemetry-operator'']"
proof -
  have l: "Labels (ObjectMeta bridge_empty_label) = Some [managedByKey \<mapsto> '''']"
    by (simp add: bridge_empty_label_def)
  have e: "[managedByKey \<mapsto> ''''] managedByKey = Some ''''"
    by simp
  from Default_overwrites_empty_managed_by [of bridge_empty_label "[managedByKey \<mapsto> '''']"] l e
  have "Labels (ObjectMeta (snd (Default bridge_empty_label)))
          = Some ([managedByKey \<mapsto> ''''](managedByKey \<mapsto> ''opentelemetry-operator''))"
    by blast
  then show ?thesis by simp
qed

section \<open>The webhook: validation\<close>

text \<open>
  \<open>validateCRDSpec\<close> itself checks the four conditions in the order of the source and
  stops at the first that fails.
\<close>

lemma TrimSpace_examples:
  "TrimSpace [] = []"
  "TrimSpace [CHR 0x09, CHR '' '', CHR 0x0A] = []"
  "TrimSpace [CHR 0xC2, CHR 0xA0, CHR 0xE2, CHR 0x80, CHR 0x83, CHR 0xE3, CHR 0x80, CHR 0x80] = []"
  "TrimSpace ('' wss'' @ [CHR 0xC2, CHR 0x85]) = ''wss''"
  "TrimSpace [CHR 0xA0] = [CHR 0xA0]"
  by (simp_all add: TrimSpace_def asciiSpace_def space2_def space3_def)

lemma validateCRDSpec_endpoint:
  "TrimSpace (Endpoint (Spec r)) = [] \<Longrightarrow>
     validateCRDSpec vn vp r = Some (Errorf ''the OpAMP server endpoint is not specified'' [])"
  by (simp add: validateCRDSpec_def)

lemma validateCRDSpec_protocol:
  "TrimSpace (Endpoint (Spec r)) \<noteq> [] \<Longrightarrow> TrimSpace (Protocol (Spec r)) = [] \<Longrightarrow>
     validateCRDSpec vn vp r =
       Some (Errorf ''the transport for OpAMP server protocol is not specified'' [])"
  by (simp add: validateCRDSpec_def)

lemma validateCRDSpec_capabilities:
  "TrimSpace (Endpoint (Spec r)) \<noteq> [] \<Longrightarrow> TrimSpace (Protocol (Spec r)) \<noteq> [] \<Longrightarrow>
   Capabilities (Spec r) = [] \<Longrightarrow>
     validateCRDSpec vn vp r =
       Some (Errorf ''the capabilities supported by OpAMP Bridge are not specified'' [])"
  by (simp add: validateCRDSpec_def)

lemma validatePorts_rejects:
  "p \<in> set ps \<Longrightarrow> vn (PortName p) \<noteq> [] \<or> vp (sint (Port p)) \<noteq> [] \<Longrightarrow>
     validatePorts vn vp ps \<noteq> None"
  by (induction ps) (auto simp add: Let_def)

text \<open>
  C1. The claim is that \<open>ValidateCreate\<close> rejects a resource that fails one of the four
  checks, naming the field. The code does not: \<open>ValidateCreate\<close> returns no error for
  any resource, because it drops what \<open>validateCRDSpec\<close> returns. At a resource with
  an empty endpoint, and at one with endpoint and protocol set and no capabilities,
  \<open>validateCRDSpec\<close> reports the error and \<open>ValidateCreate\<close> returns none.
\<close>

theorem ValidateCreate_never_rejects:
  "snd (ValidateCreate vn vp r) = None
   \<and> validateCRDSpec vn vp bridge_unset
       = Some (Errorf ''the OpAMP server endpoint is not specified'' [])
   \<and> snd (ValidateCreate vn vp bridge_unset) = None
   \<and> validateCRDSpec vn vp bridge_set
       = Some (Errorf ''the capabilities supported by OpAMP Bridge are not specified'' [])
   \<and> snd (ValidateCreate vn vp bridge_set) = None"
proof -
  have accept: "snd (ValidateCreate vn vp x) = None" for x
    by (simp add: ValidateCreate_def)
  have endpoint: "validateCRDSpec vn vp bridge_unset
      = Some (Errorf ''the OpAMP server endpoint is not specified'' [])"
    by (rule validateCRDSpec_endpoint) (simp add: bridge_unset_def TrimSpace_def)
  have capabilities: "validateCRDSpec vn vp bridge_set
      = Some (Errorf ''the capabilities supported by OpAMP Bridge are not specified'' [])"
    by (rule validateCRDSpec_capabilities)
       (simp_all add: bridge_set_def TrimSpace_def asciiSpace_def space2_def space3_def)
  from accept endpoint capabilities show ?thesis by simp
qed

text \<open>
  C9. \<open>ValidateUpdate\<close> and \<open>ValidateDelete\<close> check nothing: for every resource, and
  for every old object, they return no error.
\<close>

theorem ValidateUpdate_ValidateDelete_accept:
  "snd (ValidateUpdate r old) = None \<and> snd (ValidateDelete r) = None"
  by (simp add: ValidateUpdate_def ValidateDelete_def)

section \<open>The compiled manifests\<close>

lemma Deployment_labels:
  "DeploymentSpec.Selector (Spec (snd (Deployment pkg params))) =
     Some \<lparr>MatchLabels = Some (Labels_of (targetallocator.isFilteredLabel pkg) (targetallocator.component pkg)
        (targetallocator.pinnedVersion pkg (OtelCol params)) (OtelCol params)
        (naming_TargetAllocator pkg (Name (ObjectMeta (OtelCol params)))) [])\<rparr>
   \<and> Labels (ObjectMeta (DeploymentSpec.Template (Spec (snd (Deployment pkg params))))) =
     Some (Labels_of (targetallocator.isFilteredLabel pkg) (targetallocator.component pkg)
        (targetallocator.pinnedVersion pkg (OtelCol params)) (OtelCol params)
        (naming_TargetAllocator pkg (Name (ObjectMeta (OtelCol params)))) [])"
  by (simp add: Deployment_def Let_def split: prod.splits)

lemma Deployment_Containers:
  "PodSpec.Containers (Spec (DeploymentSpec.Template (Spec (snd (Deployment pkg params))))) =
     [snd (targetallocator.Container pkg (Config params) (OtelCol params))]"
  by (simp add: Deployment_def Let_def split: prod.splits)

lemma Deployment_log:
  "fst (Deployment pkg params) =
     fst (ConfigMap pkg params)
     @ (if snd (snd (ConfigMap pkg params)) \<noteq> None
        then [Info ''failed to construct target allocator config map for annotations'' []] else [])
     @ fst (targetallocator.Container pkg (Config params) (OtelCol params))"
  by (simp add: Deployment_def Let_def split: prod.splits)

lemma Deployment_Annotations:
  "ObjectMeta.Annotations (ObjectMeta (DeploymentSpec.Template (Spec (snd (Deployment pkg params))))) =
     Some (Annotations_of (getConfigMapSHA pkg) (OtelCol params)
       (if snd (snd (ConfigMap pkg params)) \<noteq> None then None else fst (snd (ConfigMap pkg params))))"
  by (simp add: Deployment_def Let_def split: prod.splits)

lemma DaemonSet_labels:
  "DaemonSetSpec.Selector (Spec (snd (DaemonSet pkg params))) =
     Some \<lparr>MatchLabels = Some (SelectorLabels (collector.component pkg) (OtelCol params))\<rparr>
   \<and> Labels (ObjectMeta (DaemonSetSpec.Template (Spec (snd (DaemonSet pkg params))))) =
     Some (Labels_of (collector.isFilteredLabel pkg) (collector.component pkg)
        (collector.pinnedVersion pkg (OtelCol params)) (OtelCol params)
        (naming_Collector pkg (Name (ObjectMeta (OtelCol params)))) (LabelsFilter (Config params)))"
  by (simp add: DaemonSet_def Let_def split: prod.splits)

lemma DaemonSet_Containers:
  "PodSpec.Containers (Spec (DaemonSetSpec.Template (Spec (snd (DaemonSet pkg params))))) =
     AdditionalContainers (Spec (OtelCol params))
     @ [snd (collector.Container pkg (Config params) (OtelCol params) True)]"
  by (simp add: DaemonSet_def Let_def split: prod.splits)

lemma DaemonSet_network:
  "PodSpec.HostNetwork (Spec (DaemonSetSpec.Template (Spec (snd (DaemonSet pkg params))))) =
     OpenTelemetryCollectorSpec.HostNetwork (Spec (OtelCol params))
   \<and> PodSpec.DNSPolicy (Spec (DaemonSetSpec.Template (Spec (snd (DaemonSet pkg params))))) =
     getDNSPolicy (OtelCol params)"
  by (simp add: DaemonSet_def Let_def split: prod.splits)

lemma Deployment_network:
  "PodSpec.HostNetwork (Spec (DeploymentSpec.Template (Spec (snd (Deployment pkg params))))) = False
   \<and> PodSpec.DNSPolicy (Spec (DeploymentSpec.Template (Spec (snd (Deployment pkg params))))) = []"
  by (simp add: Deployment_def Let_def split: prod.splits)

lemma label_keys_distinct:
  "distinct [componentKey, instanceKey, managedByKey, partOfKey, versionKey, nameKey]"
  by (simp add: componentKey_def instanceKey_def managedByKey_def partOfKey_def versionKey_def
        nameKey_def)

lemma SelectorLabels_apply:
  "SelectorLabels c r k =
     (if k = partOfKey then Some ''opentelemetry''
      else if k = managedByKey then Some ''opentelemetry-operator''
      else if k = instanceKey then Some (Namespace (ObjectMeta r) @ ''.'' @ Name (ObjectMeta r))
      else if k = componentKey then Some c
      else None)"
  by (simp add: SelectorLabels_def)

lemma Labels_of_apply:
  "Labels_of f c p r n pats k =
     (if k = nameKey then Some n
      else if k = versionKey then Some (versionLabel p)
      else if k = partOfKey then Some ''opentelemetry''
      else if k = managedByKey then Some ''opentelemetry-operator''
      else if k = instanceKey then Some (Namespace (ObjectMeta r) @ ''.'' @ Name (ObjectMeta r))
      else if k = componentKey then Some c
      else if f k pats then None else entries (Labels (ObjectMeta r)) k)"
  by (simp add: Labels_of_def map_add_def)

lemma SelectorLabels_le_Labels_of:
  "SelectorLabels c r k = Some v \<Longrightarrow> Labels_of f c p r n pats k = Some v"
  using label_keys_distinct
  by (auto simp add: SelectorLabels_apply Labels_of_apply split: if_splits)

lemma dom_SelectorLabels:
  "dom (SelectorLabels c r) = {componentKey, instanceKey, managedByKey, partOfKey}"
  by (auto simp add: SelectorLabels_apply dom_def split: if_splits)

lemma matchLabels_Some: "matchLabels (Some \<lparr>MatchLabels = Some m\<rparr>) = m"
  by (simp add: matchLabels_def entries_def)

lemma entries_Some: "entries (Some m) = m"
  by (simp add: entries_def)

text \<open>
  C2. In the manifest of the target allocator Deployment and in that of the collector
  DaemonSet, every key of the selector's match labels is a key of the pod template's
  labels, with the same value.
\<close>

theorem selector_within_template_labels:
  "(matchLabels (DeploymentSpec.Selector (Spec (snd (Deployment ta params)))) k = Some v \<longrightarrow>
      entries (Labels (ObjectMeta (DeploymentSpec.Template (Spec (snd (Deployment ta params)))))) k
        = Some v)
   \<and> (matchLabels (DaemonSetSpec.Selector (Spec (snd (DaemonSet col params)))) k = Some v \<longrightarrow>
      entries (Labels (ObjectMeta (DaemonSetSpec.Template (Spec (snd (DaemonSet col params)))))) k
        = Some v)"
  by (simp add: Deployment_labels DaemonSet_labels matchLabels_Some entries_Some
        SelectorLabels_le_Labels_of)

theorem selector_within_template_labels_witness:
  "entries (Labels (ObjectMeta (DeploymentSpec.Template
      (Spec (snd (Deployment targetallocator_failing params_example)))))) instanceKey
     = Some ''my-namespace.my-instance''
   \<and> entries (Labels (ObjectMeta (DaemonSetSpec.Template
      (Spec (snd (DaemonSet collector_example params_example)))))) instanceKey
     = Some ''my-namespace.my-instance''"
proof -
  have inst: "Namespace (ObjectMeta (OtelCol params_example)) = ''my-namespace''"
    "Name (ObjectMeta (OtelCol params_example)) = ''my-instance''"
    by (simp_all add: params_example_def otelcol_example_def)
  have neq: "instanceKey \<noteq> nameKey" "instanceKey \<noteq> versionKey" "instanceKey \<noteq> partOfKey"
    "instanceKey \<noteq> managedByKey"
    using label_keys_distinct by auto
  have d: "matchLabels (DeploymentSpec.Selector
      (Spec (snd (Deployment targetallocator_failing params_example)))) instanceKey
        = Some ''my-namespace.my-instance''"
    by (simp add: Deployment_labels matchLabels_Some Labels_of_apply neq inst)
  have s: "matchLabels (DaemonSetSpec.Selector
      (Spec (snd (DaemonSet collector_example params_example)))) instanceKey
        = Some ''my-namespace.my-instance''"
    by (simp add: DaemonSet_labels matchLabels_Some SelectorLabels_apply neq inst)
  from selector_within_template_labels
         [of targetallocator_failing params_example instanceKey "''my-namespace.my-instance''"
             collector_example] d s
  show ?thesis by blast
qed

text \<open>
  C3. The claim is that the selector of every compiled manifest has exactly the four keys
  component, instance, managed-by and part-of. The collector DaemonSet does so. The
  target allocator Deployment does not: its selector is the whole label set, which
  carries the name and the version keys (and the resource's own labels) as well.
\<close>

theorem Deployment_selector_is_all_labels:
  "matchLabels (DeploymentSpec.Selector (Spec (snd (Deployment ta params)))) nameKey
     = Some (naming_TargetAllocator ta (Name (ObjectMeta (OtelCol params))))
   \<and> matchLabels (DeploymentSpec.Selector (Spec (snd (Deployment ta params)))) versionKey
     = Some (versionLabel (targetallocator.pinnedVersion ta (OtelCol params)))
   \<and> nameKey \<notin> {componentKey, instanceKey, managedByKey, partOfKey}
   \<and> versionKey \<notin> {componentKey, instanceKey, managedByKey, partOfKey}
   \<and> dom (matchLabels (DaemonSetSpec.Selector (Spec (snd (DaemonSet col params)))))
     = {componentKey, instanceKey, managedByKey, partOfKey}"
proof -
  have neq: "versionKey \<noteq> nameKey"
    using label_keys_distinct by auto
  have name: "matchLabels (DeploymentSpec.Selector (Spec (snd (Deployment ta params)))) nameKey
     = Some (naming_TargetAllocator ta (Name (ObjectMeta (OtelCol params))))"
    by (simp add: Deployment_labels matchLabels_Some Labels_of_apply)
  have version: "matchLabels (DeploymentSpec.Selector (Spec (snd (Deployment ta params)))) versionKey
     = Some (versionLabel (targetallocator.pinnedVersion ta (OtelCol params)))"
    by (simp add: Deployment_labels matchLabels_Some Labels_of_apply neq)
  have outside: "nameKey \<notin> {componentKey, instanceKey, managedByKey, partOfKey}"
    "versionKey \<notin> {componentKey, instanceKey, managedByKey, partOfKey}"
    using label_keys_distinct by auto
  have four: "dom (matchLabels (DaemonSetSpec.Selector (Spec (snd (DaemonSet col params)))))
     = {componentKey, instanceKey, managedByKey, partOfKey}"
    by (simp add: DaemonSet_labels matchLabels_Some dom_SelectorLabels)
  from name version outside four show ?thesis by simp
qed

text \<open>
  C4. The claim is that the managed container is at index 0 and the additional containers
  follow it. In the collector DaemonSet it is the other way round: with one additional
  container declared, index 0 holds that container and not the managed one.
\<close>

theorem DaemonSet_managed_container_not_first:
  "PodSpec.Containers (Spec (DaemonSetSpec.Template
      (Spec (snd (DaemonSet collector_example params_example))))) ! 0
     \<noteq> snd (collector.Container collector_example (Config params_example)
              (OtelCol params_example) True)
   \<and> PodSpec.Containers (Spec (DaemonSetSpec.Template
      (Spec (snd (DaemonSet collector_example params_example))))) ! 0 = sidecar"
  by (simp add: DaemonSet_Containers params_example_def otelcol_example_def
        collector_example_def sidecar_def)

text \<open>
  C4, as amended. The container list of the collector DaemonSet is the additional
  containers, in their declared order, followed by the managed container, which is the
  last element, at the index that is the number of additional containers; the container
  list of the target allocator Deployment is the managed container alone, at index 0.
\<close>

theorem managed_container_position:
  "PodSpec.Containers (Spec (DaemonSetSpec.Template (Spec (snd (DaemonSet col params)))))
     = AdditionalContainers (Spec (OtelCol params))
       @ [snd (collector.Container col (Config params) (OtelCol params) True)]
   \<and> PodSpec.Containers (Spec (DaemonSetSpec.Template (Spec (snd (DaemonSet col params)))))
       ! length (AdditionalContainers (Spec (OtelCol params)))
     = snd (collector.Container col (Config params) (OtelCol params) True)
   \<and> last (PodSpec.Containers (Spec (DaemonSetSpec.Template (Spec (snd (DaemonSet col params))))))
     = snd (collector.Container col (Config params) (OtelCol params) True)
   \<and> PodSpec.Containers (Spec (DeploymentSpec.Template (Spec (snd (Deployment ta params)))))
     = [snd (targetallocator.Container ta (Config params) (OtelCol params))]"
  by (simp add: DaemonSet_Containers Deployment_Containers)

text \<open>
  C7. The claim is that in every compiled pod spec the DNS policy goes with the
  host-network flag, ClusterFirst when the flag is false. The target allocator
  Deployment sets neither field of its pod spec: the flag is false and the DNS policy is
  not ClusterFirst.
\<close>

theorem Deployment_DNSPolicy_not_ClusterFirst:
  "\<not> PodSpec.HostNetwork (Spec (DeploymentSpec.Template
        (Spec (snd (Deployment targetallocator_failing params_example)))))
   \<and> PodSpec.DNSPolicy (Spec (DeploymentSpec.Template
        (Spec (snd (Deployment targetallocator_failing params_example))))) \<noteq> DNSClusterFirst"
  by (simp add: Deployment_network DNSClusterFirst_def)

text \<open>
  C7, as amended. In the pod spec of the collector DaemonSet the host-network flag is the
  resource's, and the DNS policy goes with it: ClusterFirst when the flag is false,
  ClusterFirstWithHostNet when it is true. In the pod spec of the target allocator
  Deployment the host-network flag is false and the DNS policy is left unset, the empty
  string.
\<close>

theorem DNSPolicy_pairing_by_compiler:
  "PodSpec.HostNetwork (Spec (DaemonSetSpec.Template (Spec (snd (DaemonSet col params)))))
     = OpenTelemetryCollectorSpec.HostNetwork (Spec (OtelCol params))
   \<and> (\<not> PodSpec.HostNetwork (Spec (DaemonSetSpec.Template (Spec (snd (DaemonSet col params)))))
        \<longrightarrow> PodSpec.DNSPolicy (Spec (DaemonSetSpec.Template (Spec (snd (DaemonSet col params)))))
              = DNSClusterFirst)
   \<and> (PodSpec.HostNetwork (Spec (DaemonSetSpec.Template (Spec (snd (DaemonSet col params)))))
        \<longrightarrow> PodSpec.DNSPolicy (Spec (DaemonSetSpec.Template (Spec (snd (DaemonSet col params)))))
              = DNSClusterFirstWithHostNet)
   \<and> PodSpec.HostNetwork (Spec (DeploymentSpec.Template (Spec (snd (Deployment ta params)))))
     = False
   \<and> PodSpec.DNSPolicy (Spec (DeploymentSpec.Template (Spec (snd (Deployment ta params)))))
     = ''''"
  by (simp add: DaemonSet_network getDNSPolicy_def Deployment_network)

theorem DNSPolicy_pairing_by_compiler_witness:
  "PodSpec.DNSPolicy (Spec (DaemonSetSpec.Template
      (Spec (snd (DaemonSet collector_example params_example))))) = ''ClusterFirst''
   \<and> PodSpec.DNSPolicy (Spec (DaemonSetSpec.Template
      (Spec (snd (DaemonSet collector_example params_hostnetwork))))) = ''ClusterFirstWithHostNet''
   \<and> PodSpec.DNSPolicy (Spec (DeploymentSpec.Template
      (Spec (snd (Deployment targetallocator_failing params_example))))) = ''''"
proof -
  have off: "\<not> OpenTelemetryCollectorSpec.HostNetwork (Spec (OtelCol params_example))"
    by (simp add: params_example_def otelcol_example_def)
  have on: "OpenTelemetryCollectorSpec.HostNetwork (Spec (OtelCol params_hostnetwork))"
    by (simp add: params_hostnetwork_def)
  from DNSPolicy_pairing_by_compiler [of collector_example params_example targetallocator_failing] off
  have first: "PodSpec.DNSPolicy (Spec (DaemonSetSpec.Template
      (Spec (snd (DaemonSet collector_example params_example))))) = DNSClusterFirst"
    and unset: "PodSpec.DNSPolicy (Spec (DeploymentSpec.Template
      (Spec (snd (Deployment targetallocator_failing params_example))))) = ''''"
    by simp_all
  from DNSPolicy_pairing_by_compiler [of collector_example params_hostnetwork targetallocator_failing] on
  have second: "PodSpec.DNSPolicy (Spec (DaemonSetSpec.Template
      (Spec (snd (DaemonSet collector_example params_hostnetwork))))) = DNSClusterFirstWithHostNet"
    by simp
  from first second unset show ?thesis
    by (simp add: DNSClusterFirst_def DNSClusterFirstWithHostNet_def)
qed

text \<open>
  C8. The claim is that, when the config map cannot be built, the annotation set of the
  returned manifest lacks the checksum key. The annotations of the resource are passed
  through, so a resource that declares an annotation under that key keeps it: the config
  map fails and the key is there, with the resource's value.
\<close>

theorem Deployment_checksum_key_passed_through:
  "snd (snd (ConfigMap targetallocator_failing params_example)) \<noteq> None
   \<and> entries (ObjectMeta.Annotations (ObjectMeta (DeploymentSpec.Template
        (Spec (snd (Deployment targetallocator_failing params_example))))))
      configMapHashAnnotationKey = Some ''user-value''"
proof -
  have fails: "snd (snd (ConfigMap targetallocator_failing params_example)) \<noteq> None"
    by (simp add: targetallocator_failing_def)
  have own: "entries (ObjectMeta.Annotations (ObjectMeta (OtelCol params_example)))
      configMapHashAnnotationKey = Some ''user-value''"
    by (simp add: params_example_def otelcol_example_def entries_def)
  from fails own show ?thesis
    by (simp add: Deployment_Annotations Annotations_of_def entries_Some)
qed

text \<open>
  C8, as amended. When the config map cannot be built, the Deployment compiler still
  returns a complete manifest: the failure is logged, between what \<open>ConfigMap\<close> and
  what \<open>Container\<close> log, and is not propagated; the manifest is the one built when
  there is no config map and no error; its annotation set is exactly the resource's own
  annotations, so no checksum is added, and the checksum key is absent unless the
  resource itself declares it.
\<close>

theorem Deployment_survives_ConfigMap_failure:
  assumes "snd (snd (ConfigMap ta params)) \<noteq> None"
  shows "fst (Deployment ta params) =
           fst (ConfigMap ta params)
           @ [Info ''failed to construct target allocator config map for annotations'' []]
           @ fst (targetallocator.Container ta (Config params) (OtelCol params))
       \<and> snd (Deployment ta params) =
           snd (Deployment (ta\<lparr>ConfigMap := (\<lambda>p. ([], None, None))\<rparr>) params)
       \<and> ObjectMeta.Annotations (ObjectMeta (DeploymentSpec.Template (Spec (snd (Deployment ta params)))))
           = Some (entries (ObjectMeta.Annotations (ObjectMeta (OtelCol params))))
       \<and> (configMapHashAnnotationKey \<in> dom (entries (ObjectMeta.Annotations (ObjectMeta
             (DeploymentSpec.Template (Spec (snd (Deployment ta params)))))))
          \<longleftrightarrow> configMapHashAnnotationKey
                \<in> dom (entries (ObjectMeta.Annotations (ObjectMeta (OtelCol params)))))"
proof -
  have log: "fst (Deployment ta params) =
           fst (ConfigMap ta params)
           @ [Info ''failed to construct target allocator config map for annotations'' []]
           @ fst (targetallocator.Container ta (Config params) (OtelCol params))"
    using assms by (simp add: Deployment_log)
  obtain l c e where cm: "ConfigMap ta params = (l, c, e)"
    by (cases "ConfigMap ta params")
  with assms have e: "e \<noteq> None"
    by simp
  have same: "snd (Deployment ta params) =
           snd (Deployment (ta\<lparr>ConfigMap := (\<lambda>p. ([], None, None))\<rparr>) params)"
    using e by (simp add: Deployment_def Let_def cm split: prod.splits)
  have annotations: "ObjectMeta.Annotations (ObjectMeta (DeploymentSpec.Template
        (Spec (snd (Deployment ta params)))))
      = Some (entries (ObjectMeta.Annotations (ObjectMeta (OtelCol params))))"
    using assms by (simp add: Deployment_Annotations Annotations_of_def)
  from log same annotations show ?thesis
    by (simp add: entries_Some)
qed

theorem Deployment_survives_ConfigMap_failure_witness:
  "fst (Deployment targetallocator_failing params_example)
     = [Info ''failed to construct target allocator config map for annotations'' []]
   \<and> ObjectMeta.Annotations (ObjectMeta (DeploymentSpec.Template
        (Spec (snd (Deployment targetallocator_failing params_example)))))
     = Some [configMapHashAnnotationKey \<mapsto> ''user-value'']"
proof -
  have fails: "snd (snd (ConfigMap targetallocator_failing params_example)) \<noteq> None"
    by (simp add: targetallocator_failing_def)
  have quiet: "fst (ConfigMap targetallocator_failing params_example) = []"
    "fst (targetallocator.Container targetallocator_failing (Config params_example)
       (OtelCol params_example)) = []"
    by (simp_all add: targetallocator_failing_def)
  have own: "entries (ObjectMeta.Annotations (ObjectMeta (OtelCol params_example)))
      = [configMapHashAnnotationKey \<mapsto> ''user-value'']"
    by (simp add: params_example_def otelcol_example_def entries_def)
  note survives = Deployment_survives_ConfigMap_failure [OF fails]
  from survives have log: "fst (Deployment targetallocator_failing params_example) =
      fst (ConfigMap targetallocator_failing params_example)
      @ [Info ''failed to construct target allocator config map for annotations'' []]
      @ fst (targetallocator.Container targetallocator_failing (Config params_example)
           (OtelCol params_example))"
    by (rule conjunct1)
  from survives have annotations: "ObjectMeta.Annotations (ObjectMeta (DeploymentSpec.Template
        (Spec (snd (Deployment targetallocator_failing params_example)))))
      = Some (entries (ObjectMeta.Annotations (ObjectMeta (OtelCol params_example))))"
    by blast
  from log annotations quiet own show ?thesis
    by simp
qed

end
